theory Spec2Isabelle
  imports Complex_Main
begin

section \<open>The multigraph of pyvane.graph\<close>

text \<open>
  The graph of \<^verbatim>\<open>adjustment.py\<close> is a networkx MultiGraph: undirected, with
  self-loops and parallel edges. An edge is known by its two endpoints and an integer
  key that tells parallel edges apart; it carries the attributes 'path', 'length' and
  'is_branch'. A node carries the attribute 'center'.

  The model keeps the edges in one list, in the order in which they were added. The
  dictionary \<open>graph[u][v]\<close> (key to attributes, in insertion order) is the sublist of
  the edges that join \<open>u\<close> and \<open>v\<close>. Lengths are real numbers.
\<close>

type_synonym pixel = "int list"

record edge =
  eu :: nat
  ev :: nat
  ekey :: nat
  path :: "pixel list"
  elength :: real
  is_branch :: bool

record graph =
  nodes :: "nat list"
  center :: "nat \<Rightarrow> pixel"
  edges :: "edge list"
  pix_size :: "real list"

datatype error = ValueError | NetworkXError | KeyError | IndexError | UnboundLocalError

type_synonym edge_id = "nat \<times> nat \<times> nat"

definition joins :: "edge \<Rightarrow> nat \<Rightarrow> nat \<Rightarrow> bool" where
  "joins e u v \<longleftrightarrow> (eu e = u \<and> ev e = v) \<or> (eu e = v \<and> ev e = u)"

definition incident :: "edge \<Rightarrow> nat \<Rightarrow> bool" where
  "incident e n \<longleftrightarrow> eu e = n \<or> ev e = n"

definition other_end :: "edge \<Rightarrow> nat \<Rightarrow> nat" where
  "other_end e n = (if eu e = n then ev e else eu e)"

text \<open>\<open>graph[u][v]\<close>: the edges between two nodes, oldest first.\<close>

definition keydict :: "graph \<Rightarrow> nat \<Rightarrow> nat \<Rightarrow> edge list" where
  "keydict g u v = filter (\<lambda>e. joins e u v) (edges g)"

text \<open>\<open>graph.degree(n)\<close>: the number of edge ends at \<open>n\<close>; a self-loop counts twice.\<close>

definition degree :: "graph \<Rightarrow> nat \<Rightarrow> nat" where
  "degree g n = length (filter (\<lambda>e. eu e = n) (edges g)) + length (filter (\<lambda>e. ev e = n) (edges g))"

text \<open>The elements of a list, each once, in the order of their first occurrence.\<close>

definition first_occurrences :: "'a list \<Rightarrow> 'a list" where
  "first_occurrences xs = rev (remdups (rev xs))"

text \<open>
  \<open>graph[n]\<close> / \<open>graph.neighbors(n)\<close>: the distinct neighbours of a node, ordered by
  their oldest surviving edge.
\<close>

definition neighbors :: "graph \<Rightarrow> nat \<Rightarrow> nat list" where
  "neighbors g n = first_occurrences (map (\<lambda>e. other_end e n) (filter (\<lambda>e. incident e n) (edges g)))"

definition has_edge :: "graph \<Rightarrow> nat \<Rightarrow> nat \<Rightarrow> bool" where
  "has_edge g u v \<longleftrightarrow> keydict g u v \<noteq> []"

text \<open>\<open>graph.remove_edge(u, v, key)\<close> raises NetworkXError when there is no such edge.\<close>

definition is_edge :: "nat \<Rightarrow> nat \<Rightarrow> nat \<Rightarrow> edge \<Rightarrow> bool" where
  "is_edge u v k e \<longleftrightarrow> joins e u v \<and> ekey e = k"

definition remove_edge :: "graph \<Rightarrow> nat \<Rightarrow> nat \<Rightarrow> nat \<Rightarrow> error + graph" where
  "remove_edge g u v k =
     (if list_ex (is_edge u v k) (edges g)
      then Inr (g\<lparr>edges := filter (\<lambda>e. \<not> is_edge u v k e) (edges g)\<rparr>)
      else Inl NetworkXError)"

text \<open>\<open>graph.remove_edges_from(ebunch)\<close> skips the edges that are not there.\<close>

fun remove_edges_from :: "graph \<Rightarrow> edge_id list \<Rightarrow> graph" where
  "remove_edges_from g [] = g"
| "remove_edges_from g ((u, v, k) # es) =
     (case remove_edge g u v k of
        Inl _ \<Rightarrow> remove_edges_from g es
      | Inr g' \<Rightarrow> remove_edges_from g' es)"

text \<open>
  \<open>MultiGraph.new_edge_key\<close>: the number of edges between the two nodes, increased
  until it is not a key in use. At most \<open>length ks\<close> candidates can be in use, so the
  search needs no more than that many steps.
\<close>

fun first_unused :: "nat \<Rightarrow> nat \<Rightarrow> nat list \<Rightarrow> nat" where
  "first_unused 0 k ks = k"
| "first_unused (Suc fuel) k ks = (if k \<in> set ks then first_unused fuel (Suc k) ks else k)"

definition new_edge_key :: "graph \<Rightarrow> nat \<Rightarrow> nat \<Rightarrow> nat" where
  "new_edge_key g u v =
     (let ks = map ekey (keydict g u v) in first_unused (length ks) (length ks) ks)"

text \<open>
  \<open>graph.add_edge(u, v, path=, length=, is_branch=)\<close> with no key given. Both nodes
  are nodes of the graph wherever this program adds an edge.
\<close>

definition add_edge :: "graph \<Rightarrow> nat \<Rightarrow> nat \<Rightarrow> pixel list \<Rightarrow> real \<Rightarrow> bool \<Rightarrow> graph" where
  "add_edge g u v p l b =
     g\<lparr>edges := edges g @
        [\<lparr>eu = u, ev = v, ekey = new_edge_key g u v, path = p, elength = l, is_branch = b\<rparr>]\<rparr>"

text \<open>\<open>graph[u][v][key]['is_branch'] = True\<close>.\<close>

definition set_branch :: "graph \<Rightarrow> nat \<Rightarrow> nat \<Rightarrow> nat \<Rightarrow> graph" where
  "set_branch g u v k =
     g\<lparr>edges := map (\<lambda>e. if is_edge u v k e then e\<lparr>is_branch := True\<rparr> else e) (edges g)\<rparr>"

text \<open>
  \<open>graph.edges(keys=True)\<close>: for each node in node order, for each of its neighbours
  not yet passed as a node, the edges between the two; each edge is reported once, as
  (node, neighbour, key).
\<close>

fun edges_from :: "graph \<Rightarrow> nat list \<Rightarrow> nat list \<Rightarrow> (nat \<times> nat \<times> edge) list" where
  "edges_from g seen [] = []"
| "edges_from g seen (n # ns) =
     concat (map (\<lambda>nbr. map (\<lambda>e. (n, nbr, e)) (keydict g n nbr))
                 (filter (\<lambda>nbr. nbr \<notin> set seen) (neighbors g n)))
     @ edges_from g (n # seen) ns"

definition edges_view :: "graph \<Rightarrow> (nat \<times> nat \<times> edge) list" where
  "edges_view g = edges_from g [] (nodes g)"

section \<open>Branch flags\<close>

text \<open>
  \<open>add_branch_info\<close>: every edge is flagged as a branch exactly when one of its
  end nodes has degree 1. The loop writes only the flag of the edge it visits and
  reads only degrees, so its result does not depend on the order of the visit.
\<close>

definition add_branch_info :: "graph \<Rightarrow> graph" where
  "add_branch_info g =
     g\<lparr>edges := map (\<lambda>e. e\<lparr>is_branch := (degree g (eu e) = 1 \<or> degree g (ev e) = 1)\<rparr>) (edges g)\<rparr>"

definition branch_flags_ok :: "graph \<Rightarrow> bool" where
  "branch_flags_ok g \<longleftrightarrow>
     list_all (\<lambda>e. is_branch e = (degree g (eu e) = 1 \<or> degree g (ev e) = 1)) (edges g)"

section \<open>Lengths of paths\<close>

text \<open>
  \<open>path_length(path, pix_size)\<close>: the steps between consecutive pixels, each
  coordinate scaled by the pixel size of its axis, and the sum of their Euclidean norms.
  All pixels and \<open>pix_size\<close> have the dimension of the image.
\<close>

definition step_length :: "real list \<Rightarrow> pixel \<Rightarrow> pixel \<Rightarrow> real" where
  "step_length ps p q =
     sqrt (sum_list (map (\<lambda>(d, s). (real_of_int d * s)\<^sup>2) (zip (map (\<lambda>(a, b). b - a) (zip p q)) ps)))"

fun path_length :: "pixel list \<Rightarrow> real list \<Rightarrow> real" where
  "path_length [] ps = 0"
| "path_length [p] ps = 0"
| "path_length (p # q # r) ps = step_length ps p q + path_length (q # r) ps"

text \<open>\<open>add_length\<close>: the attribute 'length' of every edge is the length of its path.\<close>

definition add_length :: "graph \<Rightarrow> graph" where
  "add_length g = g\<lparr>edges := map (\<lambda>e. e\<lparr>elength := path_length (path e) (pix_size g)\<rparr>) (edges g)\<rparr>"

section \<open>Small helpers of adjustment.py\<close>

text \<open>
  \<open>argmin\<close> and \<open>argmax\<close> are Python's \<open>min\<close> and \<open>max\<close> over the indices with
  the value as key: the first index of a smallest (largest) value. The lists they are
  called on are never empty (Python would raise ValueError there).
\<close>

fun argmin_from :: "nat \<Rightarrow> real \<Rightarrow> nat \<Rightarrow> real list \<Rightarrow> nat" where
  "argmin_from best bv i [] = best"
| "argmin_from best bv i (x # xs) =
     (if x < bv then argmin_from i x (Suc i) xs else argmin_from best bv (Suc i) xs)"

definition argmin :: "real list \<Rightarrow> nat" where
  "argmin vs = (case vs of [] \<Rightarrow> 0 | x # xs \<Rightarrow> argmin_from 0 x 1 xs)"

fun argmax_from :: "nat \<Rightarrow> real \<Rightarrow> nat \<Rightarrow> real list \<Rightarrow> nat" where
  "argmax_from best bv i [] = best"
| "argmax_from best bv i (x # xs) =
     (if bv < x then argmax_from i x (Suc i) xs else argmax_from best bv (Suc i) xs)"

definition argmax :: "real list \<Rightarrow> nat" where
  "argmax vs = (case vs of [] \<Rightarrow> 0 | x # xs \<Rightarrow> argmax_from 0 x 1 xs)"

definition get_single_neighbor :: "graph \<Rightarrow> nat \<Rightarrow> error + nat" where
  "get_single_neighbor g node =
     (case neighbors g node of [] \<Rightarrow> Inl IndexError | nb # _ \<Rightarrow> Inr nb)"

definition get_single_edge_key :: "graph \<Rightarrow> nat \<Rightarrow> nat \<Rightarrow> error + nat" where
  "get_single_edge_key g node1 node2 =
     (case keydict g node1 node2 of [] \<Rightarrow> Inl KeyError | e # _ \<Rightarrow> Inr (ekey e))"

text \<open>\<open>graph[u][v][key]\<close>: the attributes of one edge, KeyError when it is not there.\<close>

definition get_edge :: "graph \<Rightarrow> nat \<Rightarrow> nat \<Rightarrow> nat \<Rightarrow> error + edge" where
  "get_edge g u v k =
     (case find (is_edge u v k) (edges g) of None \<Rightarrow> Inl KeyError | Some e \<Rightarrow> Inr e)"

datatype node_type = Simple | Multiple | Loop | Unidentified

definition degree_two_node_type :: "graph \<Rightarrow> nat \<Rightarrow> node_type" where
  "degree_two_node_type g node =
     (let nbs = neighbors g node in
      if length nbs = 2 then Simple
      else if length nbs = 1 then (if hd nbs = node then Loop else Multiple)
      else Unidentified)"

text \<open>\<open>degree_two_iter(graph, False, False)\<close>: the degree-2 nodes of type 'simple'.\<close>

definition degree_two_iter :: "graph \<Rightarrow> nat list" where
  "degree_two_iter g =
     filter (\<lambda>n. degree g n = 2 \<and> degree_two_node_type g n = Simple) (nodes g)"

text \<open>\<open>remove_if_in_list\<close>: \<open>values.remove(item)\<close> with the ValueError caught.\<close>

definition remove_if_in_list :: "nat list \<Rightarrow> nat \<Rightarrow> nat list" where
  "remove_if_in_list values item = remove1 item values"

text \<open>Python's \<open>values.remove(item)\<close>: ValueError when the item is not in the list.\<close>

definition list_remove :: "nat list \<Rightarrow> nat \<Rightarrow> error + nat list" where
  "list_remove values item =
     (if item \<in> set values then Inr (remove1 item values) else Inl ValueError)"

text \<open>
  \<open>remove_small_mul\<close>: among the edges between two nodes, the first shortest one is
  removed if it is shorter than the threshold. Returns the graph and \<open>was_removed\<close>.
\<close>

definition remove_small_mul :: "graph \<Rightarrow> nat \<Rightarrow> nat \<Rightarrow> real \<Rightarrow> error + (graph \<times> bool)" where
  "remove_small_mul g node1 node2 length_threshold =
     (let kd = keydict g node1 node2 in
      if kd = [] then Inl KeyError
      else
        let ind_smal_edge = argmin (map elength kd);
            smallest_length = map elength kd ! ind_smal_edge;
            key_smal_edge = map ekey kd ! ind_smal_edge
        in if smallest_length < length_threshold
           then (case remove_edge g node1 node2 key_smal_edge of
                   Inl err \<Rightarrow> Inl err
                 | Inr g' \<Rightarrow> Inr (g', True))
           else Inr (g, False))"

text \<open>
  \<open>two_neighbors_data\<close>. Unpacking \<open>nei1, nei2 = neighbors\<close> and
  \<open>edge1_key, edge2_key = list(...)\<close> raises ValueError when the list has not exactly
  two elements; with the type 'unidentified' no branch assigns \<open>nei1\<close> and the
  comparison \<open>nei1>nei2\<close> raises UnboundLocalError.
\<close>

definition two_neighbors_data ::
  "graph \<Rightarrow> nat \<Rightarrow> node_type option \<Rightarrow> error + (nat \<times> nat \<times> nat \<times> nat)" where
  "two_neighbors_data g node node_type_arg =
     (let node_type = (case node_type_arg of None \<Rightarrow> degree_two_node_type g node | Some t \<Rightarrow> t);
          nbs = neighbors g node
      in case node_type of
           Simple \<Rightarrow>
             (if length nbs \<noteq> 2 then Inl ValueError
              else
                let nei1 = nbs ! 0; nei2 = nbs ! 1 in
                case get_single_edge_key g node nei1 of
                  Inl err \<Rightarrow> Inl err
                | Inr edge1_key \<Rightarrow>
                    (case get_single_edge_key g node nei2 of
                       Inl err \<Rightarrow> Inl err
                     | Inr edge2_key \<Rightarrow>
                         if nei1 > nei2 then Inr (nei2, nei1, edge2_key, edge1_key)
                         else Inr (nei1, nei2, edge1_key, edge2_key)))
         | Multiple \<Rightarrow>
             (if nbs = [] then Inl IndexError
              else
                let nei = hd nbs; ks = map ekey (keydict g node nei) in
                if length ks \<noteq> 2 then Inl ValueError
                else Inr (nei, nei, ks ! 0, ks ! 1))
         | Loop \<Rightarrow> Inl ValueError
         | Unidentified \<Rightarrow> Inl UnboundLocalError)"

text \<open>
  \<open>make_new_path\<close>: the two paths, turned so that the first ends and the second starts
  at the node, with the node's center between them; the new length is the two lengths
  plus the length of the connecting segment (last pixel, center, first pixel).
\<close>

definition make_new_path ::
  "graph \<Rightarrow> nat \<times> nat \<times> nat \<Rightarrow> nat \<times> nat \<times> nat \<Rightarrow> error + (pixel list \<times> real)" where
  "make_new_path g edge1 edge2 =
     (case (edge1, edge2) of ((node, nei1, edge1_key), (node', nei2, edge2_key)) \<Rightarrow>
        let node_center = center g node' in
        case get_edge g node' nei1 edge1_key of
          Inl err \<Rightarrow> Inl err
        | Inr edge1_attrs \<Rightarrow>
            (case get_edge g node' nei2 edge2_key of
               Inl err \<Rightarrow> Inl err
             | Inr edge2_attrs \<Rightarrow>
                 let path_nei1 = (if node' < nei1 then rev (path edge1_attrs) else path edge1_attrs);
                     path_nei2 = (if node' > nei2 then rev (path edge2_attrs) else path edge2_attrs)
                 in if path_nei1 = [] \<or> path_nei2 = [] then Inl IndexError
                    else
                      let new_path = path_nei1 @ [node_center] @ path_nei2;
                          new_path_seg = [last path_nei1, node_center, hd path_nei2];
                          length_new_seg = path_length new_path_seg (pix_size g);
                          length_new_path = elength edge1_attrs + length_new_seg + elength edge2_attrs
                      in Inr (new_path, length_new_path)))"

text \<open>
  \<open>branches_to_remove\<close>: which of the two edges of the node ends in a degree-1
  neighbour and is shorter than the threshold, each named (smaller node, larger node, key).
\<close>

definition branches_to_remove ::
  "graph \<Rightarrow> nat \<times> nat \<times> nat \<Rightarrow> nat \<times> nat \<times> nat \<Rightarrow> real \<Rightarrow> error + edge_id list" where
  "branches_to_remove g edge1 edge2 length_threshold =
     (case (edge1, edge2) of ((node, nei1, edge1_key), (node', nei2, edge2_key)) \<Rightarrow>
        case get_edge g node' nei1 edge1_key of
          Inl err \<Rightarrow> Inl err
        | Inr e1 \<Rightarrow>
            (case get_edge g node' nei2 edge2_key of
               Inl err \<Rightarrow> Inl err
             | Inr e2 \<Rightarrow>
                 Inr ((if degree g nei1 = 1 \<and> elength e1 < length_threshold
                       then [(min node' nei1, max node' nei1, edge1_key)] else [])
                    @ (if degree g nei2 = 1 \<and> elength e2 < length_threshold
                       then [(min node' nei2, max node' nei2, edge2_key)] else []))))"

text \<open>
  \<open>handle_new_multiedge\<close>: after a merge has made the edges between \<open>nei1\<close> and
  \<open>nei2\<close> parallel, the shortest is removed if it is shorter than twice the threshold.
  Then a neighbour of degree 2 is pushed on the work list, and a neighbour of degree 1
  is taken off it and makes the surviving edge a branch.
\<close>

definition handle_new_multiedge ::
  "graph \<Rightarrow> nat \<Rightarrow> nat \<Rightarrow> real \<Rightarrow> nat list \<Rightarrow> error + (graph \<times> nat list \<times> bool)" where
  "handle_new_multiedge g nei1 nei2 length_threshold nodes_to_visit =
     (case remove_small_mul g nei1 nei2 (2 * length_threshold) of
        Inl err \<Rightarrow> Inl err
      | Inr (g', was_removed) \<Rightarrow>
          if was_removed then
            let nei1_degree = degree g' nei1;
                ntv1 = (if nei1_degree = 2 then nodes_to_visit @ [nei1]
                        else if nei1_degree = 1 then remove_if_in_list nodes_to_visit nei1
                        else nodes_to_visit);
                is_branch1 = (nei1_degree \<noteq> 2 \<and> nei1_degree = 1);
                nei2_degree = degree g' nei2;
                ntv2 = (if nei2_degree = 2 then ntv1 @ [nei2]
                        else if nei2_degree = 1 then remove_if_in_list ntv1 nei2
                        else ntv1);
                is_branch2 = (if nei2_degree \<noteq> 2 \<and> nei2_degree = 1 then True else is_branch1)
            in Inr (g', ntv2, is_branch2)
          else Inr (g', nodes_to_visit, False))"

section \<open>Removing the nodes of degree two\<close>

text \<open>
  The state of the loop of \<open>remove_degree_two_nodes\<close>: the graph, the work list (a
  Python list used as a stack, its top at the end) and the two sets of branch changes
  (kept as duplicate-free lists).
\<close>

record d2_state =
  st_graph :: graph
  nodes_to_visit :: "nat list"
  added_branches :: "edge_id list"
  removed_branches :: "edge_id list"

text \<open>
  The lines \<open>graph.remove_edges_from([...])\<close> and \<open>graph.add_edge(nei1, nei2, ...)\<close>:
  the two edges of the node are replaced by one edge between its neighbours.
\<close>

definition replace_edges ::
  "graph \<Rightarrow> nat \<Rightarrow> nat \<Rightarrow> nat \<Rightarrow> nat \<Rightarrow> nat \<Rightarrow> pixel list \<Rightarrow> real \<Rightarrow> bool \<Rightarrow> graph" where
  "replace_edges g node nei1 nei2 edge1_key edge2_key new_path length_new_path is_br =
     add_edge (remove_edges_from g [(node, nei1, edge1_key), (node, nei2, edge2_key)])
       nei1 nei2 new_path length_new_path is_br"

text \<open>
  The bookkeeping of the branches that a merge removes: one that was added earlier in
  the same call is dropped from \<open>added_branches\<close>, any other goes to \<open>removed_branches\<close>.
\<close>

fun note_removed :: "edge_id list \<Rightarrow> edge_id list \<times> edge_id list \<Rightarrow> edge_id list \<times> edge_id list" where
  "note_removed [] (added, removed) = (added, removed)"
| "note_removed (branch # bs) (added, removed) =
     (if branch \<in> set added then note_removed bs (removeAll branch added, removed)
      else note_removed bs (added, List.insert branch removed))"

text \<open>
  The body of the \<open>while\<close> loop of \<open>remove_degree_two_nodes\<close>, in the order of
  the source. First the lines that decide \<open>has_nei_edge\<close> and \<open>is_branch\<close>; for a
  node of type 'multiple' whose neighbour has degree 2 the neighbour is taken off the
  work list with \<open>nodes_to_visit.remove\<close>.
\<close>

definition pop_partner :: "node_type \<Rightarrow> graph \<Rightarrow> nat \<Rightarrow> nat list \<Rightarrow> error + nat list" where
  "pop_partner node_type g nei1 ntv =
     (if node_type = Multiple \<and> degree g nei1 = 2 then list_remove ntv nei1 else Inr ntv)"

definition has_nei_edge :: "node_type \<Rightarrow> graph \<Rightarrow> nat \<Rightarrow> nat \<Rightarrow> bool" where
  "has_nei_edge node_type g nei1 nei2 \<longleftrightarrow> node_type \<noteq> Multiple \<and> has_edge g nei1 nei2"

definition new_is_branch :: "node_type \<Rightarrow> graph \<Rightarrow> nat \<Rightarrow> nat \<Rightarrow> bool" where
  "new_is_branch node_type g nei1 nei2 \<longleftrightarrow>
     node_type \<noteq> Multiple \<and> \<not> has_edge g nei1 nei2 \<and> (degree g nei1 = 1 \<or> degree g nei2 = 1)"

text \<open>The block \<open>if is_branch and return_branch_changes\<close>.\<close>

definition branch_changes ::
  "bool \<Rightarrow> bool \<Rightarrow> graph \<Rightarrow> nat \<times> nat \<times> nat \<Rightarrow> nat \<times> nat \<times> nat \<Rightarrow> real
     \<Rightarrow> edge_id list \<times> edge_id list \<Rightarrow> error + (edge_id list \<times> edge_id list)" where
  "branch_changes is_br return_branch_changes g edge1 edge2 length_threshold ar =
     (if is_br \<and> return_branch_changes
      then (case branches_to_remove g edge1 edge2 length_threshold of
              Inl err \<Rightarrow> Inl err
            | Inr b_to_rem \<Rightarrow> Inr (note_removed (remdups b_to_rem) ar))
      else Inr ar)"

text \<open>The block \<open>if is_branch\<close> at the end of the loop body.\<close>

definition flag_new_branch ::
  "real \<Rightarrow> bool \<Rightarrow> graph \<Rightarrow> nat list \<Rightarrow> bool \<Rightarrow> nat \<Rightarrow> nat \<Rightarrow> real
     \<Rightarrow> edge_id list \<times> edge_id list \<Rightarrow> error + d2_state" where
  "flag_new_branch length_threshold return_branch_changes g ntv is_br nei1 nei2 length_new_path ar =
     (if is_br then
        (case get_single_edge_key g nei1 nei2 of
           Inl err \<Rightarrow> Inl err
         | Inr nei_edge_key \<Rightarrow>
             Inr \<lparr>st_graph = set_branch g nei1 nei2 nei_edge_key,
                  nodes_to_visit = ntv,
                  added_branches =
                    (if return_branch_changes \<and> length_new_path < length_threshold
                     then List.insert (nei1, nei2, nei_edge_key) (fst ar) else fst ar),
                  removed_branches = snd ar\<rparr>)
      else
        Inr \<lparr>st_graph = g, nodes_to_visit = ntv,
             added_branches = fst ar, removed_branches = snd ar\<rparr>)"

text \<open>The lines after \<open>make_new_path\<close>.\<close>

definition rewire ::
  "real \<Rightarrow> bool \<Rightarrow> graph \<Rightarrow> nat list \<Rightarrow> edge_id list \<times> edge_id list \<Rightarrow> node_type
     \<Rightarrow> nat \<Rightarrow> nat \<Rightarrow> nat \<Rightarrow> nat \<Rightarrow> nat \<Rightarrow> pixel list \<Rightarrow> real \<Rightarrow> error + d2_state" where
  "rewire length_threshold return_branch_changes g ntv ar node_type node nei1 nei2
     edge1_key edge2_key new_path length_new_path =
     (case pop_partner node_type g nei1 ntv of
        Inl err \<Rightarrow> Inl err
      | Inr ntv1 \<Rightarrow>
          (case branch_changes (new_is_branch node_type g nei1 nei2) return_branch_changes g
                  (node, nei1, edge1_key) (node, nei2, edge2_key) length_threshold ar of
             Inl err \<Rightarrow> Inl err
           | Inr ar1 \<Rightarrow>
               (case (if has_nei_edge node_type g nei1 nei2
                      then handle_new_multiedge
                             (replace_edges g node nei1 nei2 edge1_key edge2_key new_path
                                length_new_path (new_is_branch node_type g nei1 nei2))
                             nei1 nei2 length_threshold ntv1
                      else Inr (replace_edges g node nei1 nei2 edge1_key edge2_key new_path
                                  length_new_path (new_is_branch node_type g nei1 nei2),
                                ntv1, new_is_branch node_type g nei1 nei2)) of
                  Inl err \<Rightarrow> Inl err
                | Inr (g3, ntv2, is_br) \<Rightarrow>
                    flag_new_branch length_threshold return_branch_changes g3 ntv2 is_br
                      nei1 nei2 length_new_path ar1)))"

text \<open>One pass: pop a node, find its type, its neighbours and the new path, then rewire.\<close>

definition eliminate_node :: "real \<Rightarrow> bool \<Rightarrow> d2_state \<Rightarrow> error + d2_state" where
  "eliminate_node length_threshold return_branch_changes st =
     (let g = st_graph st;
          node = last (nodes_to_visit st);
          ntv = butlast (nodes_to_visit st);
          node_type = degree_two_node_type g node
      in
      case two_neighbors_data g node (Some node_type) of
        Inl err \<Rightarrow> Inl err
      | Inr (nei1, nei2, edge1_key, edge2_key) \<Rightarrow>
          (case make_new_path g (node, nei1, edge1_key) (node, nei2, edge2_key) of
             Inl err \<Rightarrow> Inl err
           | Inr (new_path, length_new_path) \<Rightarrow>
               rewire length_threshold return_branch_changes g ntv
                 (added_branches st, removed_branches st) node_type node nei1 nei2
                 edge1_key edge2_key new_path length_new_path))"

subsection \<open>Every pass removes at least one edge\<close>

lemma remove_edge_fields:
  "remove_edge g u v k = Inr g' \<Longrightarrow>
     edges g' = filter (\<lambda>e. \<not> is_edge u v k e) (edges g) \<and> nodes g' = nodes g
     \<and> center g' = center g \<and> pix_size g' = pix_size g"
  by (auto simp: remove_edge_def split: if_splits)

lemma remove_edge_Inl_filter:
  "remove_edge g u v k = Inl err \<Longrightarrow> filter (\<lambda>e. \<not> is_edge u v k e) (edges g) = edges g"
  by (auto simp: remove_edge_def list_ex_iff filter_id_conv split: if_splits)

lemma remove_edges_from_fields:
  "edges (remove_edges_from g es) = filter (\<lambda>e. \<forall>(u, v, k) \<in> set es. \<not> is_edge u v k e) (edges g)
   \<and> nodes (remove_edges_from g es) = nodes g
   \<and> center (remove_edges_from g es) = center g
   \<and> pix_size (remove_edges_from g es) = pix_size g"
proof (induction g es rule: remove_edges_from.induct)
  case (1 g)
  then show ?case by simp
next
  case (2 g u v k es)
  show ?case
  proof (cases "remove_edge g u v k")
    case (Inl err)
    have "filter (\<lambda>e. \<forall>(u, v, k) \<in> set es. \<not> is_edge u v k e) (edges g)
        = filter (\<lambda>e. \<forall>(u, v, k) \<in> set es. \<not> is_edge u v k e) (filter (\<lambda>e. \<not> is_edge u v k e) (edges g))"
      using remove_edge_Inl_filter [OF Inl] by simp
    also have "\<dots> = filter (\<lambda>e. \<forall>(u, v, k) \<in> set ((u, v, k) # es). \<not> is_edge u v k e) (edges g)"
      by (auto intro: filter_cong)
    finally show ?thesis using Inl "2.IH"(1) [OF Inl] by simp
  next
    case (Inr g')
    have "filter (\<lambda>e. \<forall>(u, v, k) \<in> set es. \<not> is_edge u v k e) (filter (\<lambda>e. \<not> is_edge u v k e) (edges g))
        = filter (\<lambda>e. \<forall>(u, v, k) \<in> set ((u, v, k) # es). \<not> is_edge u v k e) (edges g)"
      by (auto intro: filter_cong)
    then show ?thesis using Inr "2.IH"(2) [OF Inr] remove_edge_fields [OF Inr] by simp
  qed
qed

lemma length_filter_disj:
  "(\<And>x. x \<in> set xs \<Longrightarrow> \<not> (P x \<and> Q x)) \<Longrightarrow>
   length (filter (\<lambda>x. P x \<or> Q x) xs) = length (filter P xs) + length (filter Q xs)"
  by (induction xs) auto

lemma joins_same_other: "joins e n a \<Longrightarrow> joins e n b \<Longrightarrow> a = b"
  by (auto simp: joins_def)

lemma distinct_first_occurrences: "distinct (first_occurrences xs)"
  by (simp add: first_occurrences_def)

lemma set_first_occurrences: "set (first_occurrences xs) = set xs"
  by (simp add: first_occurrences_def)

lemma get_single_edge_key_Inr:
  "get_single_edge_key g a b = Inr k \<Longrightarrow> \<exists>e \<in> set (edges g). is_edge a b k e"
proof -
  assume "get_single_edge_key g a b = Inr k"
  then obtain e es where kd: "keydict g a b = e # es" and k: "k = ekey e"
    by (auto simp: get_single_edge_key_def split: list.splits)
  from kd have "e \<in> set (keydict g a b)" by simp
  then show ?thesis using k by (auto simp: keydict_def is_edge_def)
qed

lemma two_neighbors_data_two_edges:
  assumes "two_neighbors_data g node (Some (degree_two_node_type g node)) = Inr (nei1, nei2, k1, k2)"
  shows "2 \<le> length (filter (\<lambda>e. is_edge node nei1 k1 e \<or> is_edge node nei2 k2 e) (edges g))"
proof (cases "degree_two_node_type g node")
  case Simple
  from assms Simple have len: "length (neighbors g node) = 2"
    by (auto simp: two_neighbors_data_def Let_def split: if_splits)
  then obtain a b where nbs: "neighbors g node = [a, b]"
    by (auto simp: length_Suc_conv numeral_2_eq_2)
  have "distinct (neighbors g node)" by (simp add: neighbors_def distinct_first_occurrences)
  with nbs have ab: "a \<noteq> b" by simp
  from assms Simple nbs obtain ka kb where
    ka: "get_single_edge_key g node a = Inr ka" and kb: "get_single_edge_key g node b = Inr kb"
    and res: "(nei1, nei2, k1, k2) = (if a > b then (b, a, kb, ka) else (a, b, ka, kb))"
    by (auto simp: two_neighbors_data_def Let_def split: if_splits sum.splits)
  let ?P = "\<lambda>e. is_edge node a ka e" and ?Q = "\<lambda>e. is_edge node b kb e"
  have disj: "\<And>e. \<not> (?P e \<and> ?Q e)"
    using ab by (auto simp: is_edge_def dest: joins_same_other)
  have "1 \<le> length (filter ?P (edges g))" "1 \<le> length (filter ?Q (edges g))"
    using get_single_edge_key_Inr [OF ka] get_single_edge_key_Inr [OF kb]
    by (auto simp: Suc_le_eq filter_empty_conv)
  then have "2 \<le> length (filter (\<lambda>e. ?P e \<or> ?Q e) (edges g))"
    using length_filter_disj [of "edges g" ?P ?Q] disj by simp
  moreover have "(\<lambda>e. is_edge node nei1 k1 e \<or> is_edge node nei2 k2 e) = (\<lambda>e. ?P e \<or> ?Q e)"
    using res by (auto split: if_splits)
  ultimately show ?thesis by simp
next
  case Multiple
  from assms Multiple obtain e1 e2 where kd: "keydict g node nei1 = [e1, e2]"
    and res: "nei2 = nei1" "k1 = ekey e1" "k2 = ekey e2"
    by (auto simp: two_neighbors_data_def Let_def length_Suc_conv numeral_2_eq_2 split: if_splits)
  have "filter (\<lambda>e. is_edge node nei1 k1 e \<or> is_edge node nei2 k2 e) (edges g)
      = filter (\<lambda>e. ekey e = k1 \<or> ekey e = k2) (keydict g node nei1)"
    using res by (auto simp: keydict_def is_edge_def intro: filter_cong)
  then show ?thesis using kd res by simp
next
  case Loop
  with assms show ?thesis by (simp add: two_neighbors_data_def)
next
  case Unidentified
  with assms show ?thesis by (simp add: two_neighbors_data_def)
qed

lemma remove_small_mul_length:
  "remove_small_mul g a b t = Inr (g', r) \<Longrightarrow> length (edges g') \<le> length (edges g)"
  by (auto simp: remove_small_mul_def Let_def split: if_splits sum.splits dest!: remove_edge_fields)

lemma handle_new_multiedge_length:
  "handle_new_multiedge g a b t ntv = Inr (g', ntv', r) \<Longrightarrow> length (edges g') \<le> length (edges g)"
  by (auto simp: handle_new_multiedge_def Let_def split: if_splits sum.splits prod.splits
      dest!: remove_small_mul_length)

lemma replace_edges_length:
  "length (edges (replace_edges g node n1 n2 k1 k2 p l b))
     = Suc (length (filter (\<lambda>e. \<not> (is_edge node n1 k1 e \<or> is_edge node n2 k2 e)) (edges g)))"
  by (simp add: replace_edges_def add_edge_def remove_edges_from_fields del: remove_edges_from.simps)

lemma set_branch_length: "length (edges (set_branch g a b k)) = length (edges g)"
  by (simp add: set_branch_def)

lemma flag_new_branch_length:
  "flag_new_branch thr rbc g ntv b n1 n2 l ar = Inr st' \<Longrightarrow>
     length (edges (st_graph st')) = length (edges g)"
  by (auto simp: flag_new_branch_def set_branch_length split: if_splits sum.splits)

lemma rewire_length:
  assumes "rewire thr rbc g ntv ar nt node n1 n2 k1 k2 p l = Inr st'"
  shows "length (edges (st_graph st'))
           \<le> length (edges (replace_edges g node n1 n2 k1 k2 p l (new_is_branch nt g n1 n2)))"
proof -
  let ?g2 = "replace_edges g node n1 n2 k1 k2 p l (new_is_branch nt g n1 n2)"
  from assms obtain ntv1 ar1 g3 ntv2 b where
    h: "(if has_nei_edge nt g n1 n2 then handle_new_multiedge ?g2 n1 n2 thr ntv1
         else Inr (?g2, ntv1, new_is_branch nt g n1 n2)) = Inr (g3, ntv2, b)"
    and f: "flag_new_branch thr rbc g3 ntv2 b n1 n2 l ar1 = Inr st'"
    unfolding rewire_def by (auto split: sum.splits)
  from h have "length (edges g3) \<le> length (edges ?g2)"
    by (auto split: if_splits dest: handle_new_multiedge_length)
  with flag_new_branch_length [OF f] show ?thesis by simp
qed

lemma eliminate_node_fewer_edges:
  assumes "eliminate_node thr rbc st = Inr st'"
  shows "length (edges (st_graph st')) < length (edges (st_graph st))"
proof -
  let ?g = "st_graph st"
  let ?node = "last (nodes_to_visit st)"
  let ?nt = "degree_two_node_type ?g ?node"
  from assms obtain nei1 nei2 k1 k2 where
    tnd: "two_neighbors_data ?g ?node (Some ?nt) = Inr (nei1, nei2, k1, k2)"
    unfolding eliminate_node_def Let_def by (auto split: sum.splits)
  from assms tnd obtain p l where
    rw: "rewire thr rbc ?g (butlast (nodes_to_visit st)) (added_branches st, removed_branches st)
           ?nt ?node nei1 nei2 k1 k2 p l = Inr st'"
    unfolding eliminate_node_def Let_def by (auto split: sum.splits)
  let ?P = "\<lambda>e. is_edge ?node nei1 k1 e \<or> is_edge ?node nei2 k2 e"
  have two: "2 \<le> length (filter ?P (edges ?g))"
    by (rule two_neighbors_data_two_edges [OF tnd])
  have "length (filter ?P (edges ?g)) + length (filter (\<lambda>e. \<not> ?P e) (edges ?g)) = length (edges ?g)"
    by (rule sum_length_filter_compl)
  with two have "length (edges (replace_edges ?g ?node nei1 nei2 k1 k2 p l (new_is_branch ?nt ?g nei1 nei2)))
       < length (edges ?g)"
    by (simp add: replace_edges_length)
  with rewire_length [OF rw] show ?thesis by simp
qed

text \<open>
  The \<open>while\<close> loop of \<open>remove_degree_two_nodes\<close>. It stops when the work list is
  empty or when a pass raises; the number of edges is its measure.
\<close>

function d2_loop :: "real \<Rightarrow> bool \<Rightarrow> d2_state \<Rightarrow> error + d2_state" where
  "d2_loop length_threshold return_branch_changes st =
     (if nodes_to_visit st = [] then Inr st
      else case eliminate_node length_threshold return_branch_changes st of
             Inl err \<Rightarrow> Inl err
           | Inr st' \<Rightarrow> d2_loop length_threshold return_branch_changes st')"
  by pat_completeness auto
termination
  by (relation "measure (\<lambda>(t, r, st). length (edges (st_graph st)))")
     (auto dest: eliminate_node_fewer_edges)

declare d2_loop.simps [simp del]

text \<open>
  \<open>remove_degree_two_nodes(graph, length_threshold, initial_node, return_branch_changes)\<close>.
  The work list starts with all degree-2 nodes of type 'simple', or with the initial node
  if that is of type 'simple'. The result is the graph with the two sets of branch changes
  (both empty when they are not asked for).
\<close>

definition remove_degree_two_nodes ::
  "graph \<Rightarrow> real \<Rightarrow> nat option \<Rightarrow> bool \<Rightarrow> error + (graph \<times> edge_id list \<times> edge_id list)" where
  "remove_degree_two_nodes g length_threshold initial_node return_branch_changes =
     (let ntv = (case initial_node of
                   None \<Rightarrow> degree_two_iter g
                 | Some n \<Rightarrow> if degree_two_node_type g n = Simple then [n] else [])
      in case d2_loop length_threshold return_branch_changes
                \<lparr>st_graph = g, nodes_to_visit = ntv, added_branches = [], removed_branches = []\<rparr> of
           Inl err \<Rightarrow> Inl err
         | Inr st \<Rightarrow> Inr (st_graph st, added_branches st, removed_branches st))"

lemma d2_loop_length:
  "d2_loop thr rbc st = Inr st' \<Longrightarrow> length (edges (st_graph st')) \<le> length (edges (st_graph st))"
proof (induction thr rbc st rule: d2_loop.induct)
  case (1 thr rbc st)
  show ?case
  proof (cases "nodes_to_visit st = []")
    case True
    with "1.prems" show ?thesis by (simp add: d2_loop.simps)
  next
    case False
    with "1.prems" obtain st1 where
      step: "eliminate_node thr rbc st = Inr st1" and rest: "d2_loop thr rbc st1 = Inr st'"
      by (auto simp: d2_loop.simps [of thr rbc st] split: sum.splits)
    from "1.IH" [OF False step rest] eliminate_node_fewer_edges [OF step]
    show ?thesis by simp
  qed
qed

lemma remove_degree_two_nodes_length:
  "remove_degree_two_nodes g thr init rbc = Inr (g', a, r) \<Longrightarrow> length (edges g') \<le> length (edges g)"
  by (auto simp: remove_degree_two_nodes_def Let_def split: sum.splits dest!: d2_loop_length)

section \<open>Removing short branches\<close>

text \<open>
  Modelled from the spec: \<open>util.PriorityQueue\<close>, which is not among the sources. The
  spec asks for a priority queue of branch edges keyed by ascending length, ties broken
  by insertion order, with removal of an arbitrary element by its edge identity, the
  (node, node, edge-index) triple. The model is the list of live entries in insertion
  order. Adding a task that is already queued replaces its entry, and removing a task
  that is not queued changes nothing.
\<close>

type_synonym queue = "(real \<times> edge_id) list"

definition add_task :: "queue \<Rightarrow> real \<Rightarrow> edge_id \<Rightarrow> queue" where
  "add_task q priority task = filter (\<lambda>(p, t). t \<noteq> task) q @ [(priority, task)]"

definition remove_task :: "queue \<Rightarrow> edge_id \<Rightarrow> queue" where
  "remove_task q task = filter (\<lambda>(p, t). t \<noteq> task) q"

definition pop_task :: "queue \<Rightarrow> (real \<times> edge_id) \<times> queue" where
  "pop_task q = (let i = argmin (map fst q) in (q ! i, take i q @ drop (Suc i) q))"

text \<open>
  The queue that \<open>remove_branches\<close> starts with: the edges of \<open>graph.edges\<close> that are
  flagged as branches and shorter than the threshold, each as (node1, node2, key).
\<close>

definition branch_small_edges :: "graph \<Rightarrow> real \<Rightarrow> queue" where
  "branch_small_edges g length_threshold =
     map (\<lambda>(u, v, e). (elength e, (u, v, ekey e)))
       (filter (\<lambda>(u, v, e). is_branch e \<and> elength e < length_threshold) (edges_view g))"

text \<open>
  The loop over \<open>added_branches\<close>: each is queued with the length that the graph now
  has for it (KeyError if the graph has no such edge).
\<close>

fun add_tasks :: "graph \<Rightarrow> queue \<Rightarrow> edge_id list \<Rightarrow> error + queue" where
  "add_tasks g q [] = Inr q"
| "add_tasks g q ((node1, node2, key) # bs) =
     (case get_edge g node1 node2 key of
        Inl err \<Rightarrow> Inl err
      | Inr e \<Rightarrow> add_tasks g (add_task q (elength e) (node1, node2, key)) bs)"

text \<open>
  The queue after a call of \<open>remove_degree_two_nodes\<close>: the added branches are
  queued, then the removed ones are taken out.
\<close>

definition update_queue :: "graph \<Rightarrow> queue \<Rightarrow> edge_id list \<Rightarrow> edge_id list \<Rightarrow> error + queue" where
  "update_queue g q added removed =
     (case add_tasks g q added of
        Inl err \<Rightarrow> Inl err
      | Inr q' \<Rightarrow> Inr (fold (\<lambda>branch q. remove_task q branch) removed q'))"

text \<open>
  The branch \<open>elif target_node_degree==1\<close>: the one remaining edge of the target node
  is flagged as a branch and queued.
\<close>

definition mark_last_edge :: "graph \<Rightarrow> queue \<Rightarrow> nat \<Rightarrow> error + (graph \<times> queue)" where
  "mark_last_edge g q target_node =
     (case get_single_neighbor g target_node of
        Inl err \<Rightarrow> Inl err
      | Inr target_neighbor \<Rightarrow>
          (case get_single_edge_key g target_node target_neighbor of
             Inl err \<Rightarrow> Inl err
           | Inr target_edge_key \<Rightarrow>
               (case get_edge g target_node target_neighbor target_edge_key of
                  Inl err \<Rightarrow> Inl err
                | Inr target_edge \<Rightarrow>
                    Inr (set_branch g target_node target_neighbor target_edge_key,
                         add_task q (elength target_edge)
                           (target_node, target_neighbor, target_edge_key)))))"

text \<open>What the loop does with the target node once the popped edge is removed.\<close>

definition after_removal :: "real \<Rightarrow> graph \<Rightarrow> queue \<Rightarrow> nat \<Rightarrow> error + (graph \<times> queue)" where
  "after_removal length_threshold g q target_node =
     (let target_node_degree = degree g target_node in
      if target_node_degree = 2 then
        (case remove_degree_two_nodes g length_threshold (Some target_node) True of
           Inl err \<Rightarrow> Inl err
         | Inr (g', added, removed) \<Rightarrow>
             (case update_queue g' q added removed of
                Inl err \<Rightarrow> Inl err
              | Inr q' \<Rightarrow> Inr (g', q')))
      else if target_node_degree = 1 then mark_last_edge g q target_node
      else Inr (g, q))"

text \<open>One pass through the body of the \<open>while\<close> loop of \<open>remove_branches\<close>.\<close>

definition prune_branch :: "real \<Rightarrow> graph \<times> queue \<Rightarrow> error + (graph \<times> queue)" where
  "prune_branch length_threshold gq =
     (case gq of (g, branch_queue) \<Rightarrow>
      case pop_task branch_queue of ((length_smal_edge, (node1, node2, key)), q1) \<Rightarrow>
      case remove_edge g node1 node2 key of
        Inl err \<Rightarrow> Inl err
      | Inr g1 \<Rightarrow>
          after_removal length_threshold g1 q1 (if degree g1 node1 = 0 then node2 else node1))"

lemma remove_edge_length:
  "remove_edge g u v k = Inr g' \<Longrightarrow> length (edges g') < length (edges g)"
  by (auto simp: remove_edge_def list_ex_iff split: if_splits intro!: length_filter_less)

lemma mark_last_edge_length:
  "mark_last_edge g q t = Inr (g', q') \<Longrightarrow> length (edges g') = length (edges g)"
  by (auto simp: mark_last_edge_def set_branch_length split: sum.splits)

lemma after_removal_length:
  assumes "after_removal thr g q t = Inr (g', q')"
  shows "length (edges g') \<le> length (edges g)"
proof (cases "degree g t = 2")
  case True
  with assms obtain a r where "remove_degree_two_nodes g thr (Some t) True = Inr (g', a, r)"
    by (auto simp: after_removal_def split: sum.splits)
  then show ?thesis by (rule remove_degree_two_nodes_length)
next
  case False
  with assms show ?thesis
    by (auto simp: after_removal_def Let_def split: if_splits dest: mark_last_edge_length)
qed

lemma prune_branch_fewer_edges:
  assumes "prune_branch thr (g, q) = Inr (g', q')"
  shows "length (edges g') < length (edges g)"
proof -
  obtain l n1 n2 k q1 where pop: "pop_task q = ((l, (n1, n2, k)), q1)"
    by (metis prod_cases3 surj_pair)
  from assms pop obtain g1 where rem: "remove_edge g n1 n2 k = Inr g1"
    and rest: "after_removal thr g1 q1 (if degree g1 n1 = 0 then n2 else n1) = Inr (g', q')"
    by (auto simp: prune_branch_def split: sum.splits)
  from after_removal_length [OF rest] remove_edge_length [OF rem] show ?thesis by simp
qed

text \<open>The \<open>while branch_queue\<close> loop of \<open>remove_branches\<close>.\<close>

function rb_loop :: "real \<Rightarrow> graph \<times> queue \<Rightarrow> error + (graph \<times> queue)" where
  "rb_loop length_threshold (g, branch_queue) =
     (if branch_queue = [] then Inr (g, branch_queue)
      else case prune_branch length_threshold (g, branch_queue) of
             Inl err \<Rightarrow> Inl err
           | Inr gq \<Rightarrow> rb_loop length_threshold gq)"
  by pat_completeness auto
termination
  by (relation "measure (\<lambda>(t, g, q). length (edges g))")
     (auto dest: prune_branch_fewer_edges)

declare rb_loop.simps [simp del]

text \<open>\<open>remove_branches(graph, length_threshold)\<close>; it returns at once when no branch is short.\<close>

definition remove_branches :: "graph \<Rightarrow> real \<Rightarrow> error + graph" where
  "remove_branches g length_threshold =
     (let q0 = branch_small_edges g length_threshold in
      if q0 = [] then Inr g
      else case rb_loop length_threshold (g, q0) of
             Inl err \<Rightarrow> Inl err
           | Inr (g', q') \<Rightarrow> Inr g')"

lemma degree_add_branch_info: "degree (add_branch_info g) n = degree g n"
  by (simp add: degree_def add_branch_info_def filter_map o_def)

lemma add_branch_info_flags_ok: "branch_flags_ok (add_branch_info g)"
  unfolding branch_flags_ok_def list_all_iff
  by (auto simp: degree_add_branch_info) (auto simp: add_branch_info_def)

section \<open>Concrete graphs\<close>

text \<open>
  Small graphs on which the functions are run. Every path is the single pixel (0, 0)
  and every node is centred there, so each connecting segment has length 0 and the
  lengths of the edges are the ones written down.
\<close>

definition plain_edge :: "nat \<Rightarrow> nat \<Rightarrow> nat \<Rightarrow> real \<Rightarrow> bool \<Rightarrow> edge" where
  "plain_edge u v k l b =
     \<lparr>eu = u, ev = v, ekey = k, path = [[0, 0]], elength = l, is_branch = b\<rparr>"

definition plain_graph :: "nat list \<Rightarrow> edge list \<Rightarrow> graph" where
  "plain_graph ns es = \<lparr>nodes = ns, center = (\<lambda>n. [0, 0]), edges = es, pix_size = [1, 1]\<rparr>"

lemmas graph_evals =
  plain_graph_def plain_edge_def
  remove_degree_two_nodes_def d2_loop.simps eliminate_node_def rewire_def
  flag_new_branch_def branch_changes_def new_is_branch_def has_nei_edge_def pop_partner_def
  replace_edges_def handle_new_multiedge_def branches_to_remove_def make_new_path_def
  two_neighbors_data_def remove_small_mul_def list_remove_def remove_if_in_list_def
  degree_two_iter_def degree_two_node_type_def get_edge_def get_single_edge_key_def
  get_single_neighbor_def argmin_def argmax_def step_length_def set_branch_def add_edge_def
  new_edge_key_def remove_edge_def is_edge_def has_edge_def neighbors_def first_occurrences_def
  degree_def keydict_def other_end_def incident_def joins_def Let_def

lemmas queue_evals =
  remove_branches_def rb_loop.simps prune_branch_def after_removal_def
  mark_last_edge_def update_queue_def branch_small_edges_def pop_task_def add_task_def
  remove_task_def edges_view_def

text \<open>A single node with one self-loop: a degree-2 node of type 'loop'.\<close>

definition loop_graph :: graph where
  "loop_graph = plain_graph [0] [plain_edge 0 0 0 5 False]"

text \<open>
  Node 0 has the neighbours 1 and 2, which are joined by a short edge; 1 and 2 are
  both joined to node 3, which has degree 2.
\<close>

definition kite_graph :: graph where
  "kite_graph = plain_graph [0, 1, 2, 3]
     [plain_edge 0 1 0 30 False, plain_edge 0 2 0 30 False, plain_edge 1 2 0 1 False,
      plain_edge 1 3 0 30 False, plain_edge 2 3 0 30 False]"

text \<open>
  A graph without nodes of degree 2 and without parallel edges, its branch flags right:
  the triangles 0-2-3 and 2-3-4, the short branches 0-1 and 4-6, and node 5 with the
  long branches 5-7 and 5-8.
\<close>

definition two_triangles :: graph where
  "two_triangles = plain_graph [0, 1, 2, 3, 4, 5, 6, 7, 8]
     [plain_edge 0 1 0 1 True, plain_edge 0 2 0 1 False, plain_edge 0 3 0 1 False,
      plain_edge 2 3 0 1 False, plain_edge 2 4 0 12 False, plain_edge 3 4 0 1 False,
      plain_edge 4 5 0 50 False, plain_edge 4 6 0 2 True,
      plain_edge 5 7 0 50 True, plain_edge 5 8 0 50 True]"

text \<open>
  The path 0-1-2 with a short branch 0-1 and a long edge 1-2, and two long branches
  at node 2.
\<close>

definition tail_graph :: graph where
  "tail_graph = plain_graph [0, 1, 2, 3, 4]
     [plain_edge 0 1 0 1 True, plain_edge 1 2 0 50 False,
      plain_edge 2 3 0 50 True, plain_edge 2 4 0 50 True]"

text \<open>The state after \<open>n\<close> passes of the loop of \<open>remove_branches\<close>.\<close>

fun rb_passes :: "nat \<Rightarrow> real \<Rightarrow> graph \<times> queue \<Rightarrow> error + (graph \<times> queue)" where
  "rb_passes 0 length_threshold gq = Inr gq"
| "rb_passes (Suc n) length_threshold gq =
     (if snd gq = [] then Inr gq
      else case prune_branch length_threshold gq of
             Inl err \<Rightarrow> Inl err
           | Inr gq' \<Rightarrow> rb_passes n length_threshold gq')"

text \<open>Every identity in the queue names an edge of the graph.\<close>

definition queue_in_graph :: "graph \<Rightarrow> queue \<Rightarrow> bool" where
  "queue_in_graph g q \<longleftrightarrow> list_all (\<lambda>(p, (u, v, k)). list_ex (is_edge u v k) (edges g)) q"

text \<open>Every short edge that is flagged as a branch is in the queue (in either direction).\<close>

definition queue_complete :: "graph \<Rightarrow> real \<Rightarrow> queue \<Rightarrow> bool" where
  "queue_complete g length_threshold q \<longleftrightarrow>
     list_all (\<lambda>e. is_branch e \<and> elength e < length_threshold \<longrightarrow>
                 list_ex (\<lambda>(p, (u, v, k)). is_edge u v k e) q) (edges g)"

section \<open>Self-loop nodes\<close>

text \<open>
  Claim C9. \<open>two_neighbors_data\<close> raises ValueError for a node of type 'loop',
  whether the type is passed in or computed. Such a node is never eliminated by
  \<open>remove_degree_two_nodes\<close>: it is not in the work list of the whole-graph mode, as
  the start node it leaves the work list empty and the graph as it is, and if it is
  ever on top of the work list the pass, and with it the loop, raises ValueError.
\<close>

theorem loop_node_raises:
  "degree_two_node_type g node = Loop \<Longrightarrow>
     two_neighbors_data g node None = Inl ValueError
   \<and> two_neighbors_data g node (Some Loop) = Inl ValueError
   \<and> node \<notin> set (degree_two_iter g)
   \<and> remove_degree_two_nodes g thr (Some node) rbc = Inr (g, [], [])
   \<and> d2_loop thr rbc \<lparr>st_graph = g, nodes_to_visit = ntv @ [node],
         added_branches = a, removed_branches = r\<rparr> = Inl ValueError"
  by (simp add: two_neighbors_data_def degree_two_iter_def remove_degree_two_nodes_def
      d2_loop.simps eliminate_node_def)

theorem loop_node_raises_witness:
  "degree_two_node_type loop_graph 0 = Loop
   \<and> degree loop_graph 0 = 2
   \<and> two_neighbors_data loop_graph 0 None = Inl ValueError
   \<and> remove_degree_two_nodes loop_graph 10 (Some 0) True = Inr (loop_graph, [], [])
   \<and> d2_loop 10 True \<lparr>st_graph = loop_graph, nodes_to_visit = [] @ [0],
        added_branches = [], removed_branches = []\<rparr> = Inl ValueError"
proof -
  have t: "degree_two_node_type loop_graph 0 = Loop"
    by (simp add: loop_graph_def graph_evals)
  have d: "degree loop_graph 0 = 2"
    by (simp add: loop_graph_def graph_evals)
  from t d loop_node_raises [OF t, of 10 True "[]" "[]" "[]"]
  show ?thesis by simp
qed

section \<open>Removal from the work list\<close>

text \<open>
  Claim C10 says that no removal from the work list raises when the node is not in the
  list. \<open>handle_new_multiedge\<close> removes with \<open>remove_if_in_list\<close>, but the
  'multiple' case of the loop body calls \<open>nodes_to_visit.remove(nei1)\<close> directly. On
  the kite graph, started at node 0: node 0 is merged away and the short edge 1-2 is
  dropped, nodes 1 and 2 are pushed; node 2 is merged away and leaves two parallel
  long edges between 1 and 3; node 1 is then of type 'multiple', its neighbour 3 has
  degree 2 and was never on the work list, and the removal raises ValueError.
\<close>

theorem multiple_case_remove_raises:
  "degree kite_graph 0 = 2 \<and> degree_two_node_type kite_graph 0 = Simple
   \<and> remove_degree_two_nodes kite_graph 10 (Some 0) True = Inl ValueError
   \<and> list_remove [] 3 = Inl ValueError \<and> remove_if_in_list [] 3 = []"
  by (simp add: kite_graph_def graph_evals)

section \<open>The queue of short branches\<close>

text \<open>
  Claim C2 says that at the start of every pass of the loop of \<open>remove_branches\<close> the
  queue holds no identity that is no longer an edge, and holds every short branch. On
  the graph of two triangles with threshold 10: the first pass removes the branch 0-1,
  merges node 0 and then node 3 away, and queues the surviving edge 2-4 of length 12,
  because the test before \<open>added_branches.add\<close> compares the length of the merged
  path, not of the surviving edge. The second pass removes the branch 4-6 and merges
  node 4 away; \<open>branches_to_remove\<close> reports only short edges, so the edge 2-4, now
  gone, stays queued. The third pass pops it and \<open>graph.remove_edge\<close> raises.
\<close>

theorem queue_keeps_removed_edge:
  "branch_flags_ok two_triangles
   \<and> degree_two_iter two_triangles = []
   \<and> branch_small_edges two_triangles 10 = [(1, (0, 1, 0)), (2, (4, 6, 0))]
   \<and> (case rb_passes (Suc (Suc 0)) 10 (two_triangles, branch_small_edges two_triangles 10) of
         Inl err \<Rightarrow> False
       | Inr (g, q) \<Rightarrow> q = [(12, (2, 4, 0))] \<and> \<not> queue_in_graph g q)
   \<and> remove_branches two_triangles 10 = Inl NetworkXError"
  by (simp add: two_triangles_def graph_evals queue_evals branch_flags_ok_def queue_in_graph_def)

section \<open>The last edge of a node of degree one\<close>

text \<open>
  Claim C3 says that the last edge of the surviving end node is queued only if it is
  shorter than the threshold. The loop body flags the edge and queues it whatever its
  length. On the tail graph with threshold 10, the pass that removes the branch 0-1
  flags the edge 1-2 of length 50 and queues it; the loop then removes it too.
\<close>

theorem long_last_edge_is_queued:
  "branch_flags_ok tail_graph
   \<and> branch_small_edges tail_graph 10 = [(1, (0, 1, 0))]
   \<and> (case prune_branch 10 (tail_graph, branch_small_edges tail_graph 10) of
         Inl err \<Rightarrow> False
       | Inr (g, q) \<Rightarrow>
           q = [(50, (1, 2, 0))]
           \<and> map (\<lambda>e. (eu e, ev e, ekey e, elength e, is_branch e)) (edges g)
               = [(1, 2, 0, 50, True), (2, 3, 0, 50, True), (2, 4, 0, 50, True)])
   \<and> (case remove_branches tail_graph 10 of
         Inl err \<Rightarrow> False
       | Inr g \<Rightarrow> map (\<lambda>e. (eu e, ev e, ekey e, elength e)) (edges g) = [(3, 4, 0, 100)])"
  by (simp add: tail_graph_def graph_evals queue_evals branch_flags_ok_def)

end
